theory Spec2Isabelle
  imports Complex_Main
begin

section \<open>Neural collaborative filtering: the evaluation code of the deep-dive notebook\<close>

text \<open>
  The repository's source is the notebook \<^verbatim>\<open>notebooks/02_model/ncf_deep_dive.ipynb\<close>.
  Its code cells build the candidate table of the full-ranking evaluation and run the
  leave-one-out evaluation loop. Both are embedded here cell by cell. The model class and
  the dataset class that the notebook imports are not among the source files; what is
  needed of them is modelled from the specification, and each such definition says so.
  Scores are real numbers: rounding and the not-a-number score of IEEE arithmetic are
  outside the model, except for the one place where the notebook itself produces a NaN
  (the mean of an empty list).
\<close>

subsection \<open>Errors and numpy values\<close>

datatype error =
    IndexError
  | ValueError
  | ConfigurationError
  | StructuralMismatchError
  | SamplingExhaustionError
  | CheckpointNotFound

text \<open>The result of \<^verbatim>\<open>np.mean\<close>: a number, or NaN for an empty input.\<close>

datatype npfloat = NaN | Finite real

text \<open>
  \<^verbatim>\<open>np.squeeze\<close> removes the axes of length one. A list of exactly one score
  becomes a zero-dimensional array; every other list stays one-dimensional.
\<close>

datatype ndarray = Scalar0d real | Array1d "real list"

definition np_squeeze :: "real list \<Rightarrow> ndarray" where
  "np_squeeze output = (case output of [x] \<Rightarrow> Scalar0d x | _ \<Rightarrow> Array1d output)"

definition np_mean :: "real list \<Rightarrow> npfloat" where
  "np_mean xs = (if xs = [] then NaN else Finite (sum_list xs / real (length xs)))"

subsection \<open>The leave-one-out loop (notebook section 3.4.3)\<close>

text \<open>
  \<^verbatim>\<open>rank = sum(output >= output[0])\<close>. Indexing a zero-dimensional or an empty
  array raises IndexError. Otherwise the comparison is elementwise against the first
  score and the sum counts the scores that pass it, the first score included.
\<close>

fun rank_of :: "ndarray \<Rightarrow> error + nat" where
  "rank_of (Scalar0d x) = Inl IndexError"
| "rank_of (Array1d []) = Inl IndexError"
| "rank_of (Array1d (p # rest)) = Inr (length (filter (\<lambda>s. s \<ge> p) (p # rest)))"

text \<open>
  One evaluation unit as the loop unpacks it,
  \<^verbatim>\<open>user_input, item_input, labels = b\<close>: three parallel columns, the held-out
  positive at index 0 of each.
\<close>

type_synonym sample = "int list \<times> int list \<times> int list"

text \<open>
  \<^verbatim>\<open>model.predict(user_input, item_input, is_list=True)\<close> belongs to the model class,
  which the notebook imports; it is a parameter here.
\<close>

type_synonym predictor = "int list \<Rightarrow> int list \<Rightarrow> real list"

text \<open>
  The loop over \<^verbatim>\<open>data.test_loader()\<close>, with the two lists it appends to as the
  state. An exception in the body ends the loop. \<^verbatim>\<open>np.log\<close> is the natural
  logarithm.
\<close>

fun loo_loop :: "nat \<Rightarrow> predictor \<Rightarrow> sample list \<Rightarrow> real list \<times> real list
    \<Rightarrow> error + (real list \<times> real list)" where
  "loo_loop k predict [] (ndcgs, hit_ratio) = Inr (ndcgs, hit_ratio)"
| "loo_loop k predict ((user_input, item_input, labels) # bs) (ndcgs, hit_ratio) =
     (case rank_of (np_squeeze (predict user_input item_input)) of
        Inl e \<Rightarrow> Inl e
      | Inr rank \<Rightarrow>
          if rank \<le> k
          then loo_loop k predict bs (ndcgs @ [1 / ln (real rank + 1)], hit_ratio @ [1])
          else loo_loop k predict bs (ndcgs @ [0], hit_ratio @ [0]))"

text \<open>
  The whole cell: the loop from two empty lists, then
  \<^verbatim>\<open>eval_ndcg = np.mean(ndcgs)\<close> and \<^verbatim>\<open>eval_hr = np.mean(hit_ratio)\<close>.
  The result is the pair \<open>(eval_ndcg, eval_hr)\<close>.
\<close>

definition loo_evaluation :: "nat \<Rightarrow> predictor \<Rightarrow> sample list \<Rightarrow> error + (npfloat \<times> npfloat)" where
  "loo_evaluation k predict samples =
     (case loo_loop k predict samples ([], []) of
        Inl e \<Rightarrow> Inl e
      | Inr (ndcgs, hit_ratio) \<Rightarrow> Inr (np_mean ndcgs, np_mean hit_ratio))"

text \<open>The rank of one sample when the loop body does not raise, and 0 when it does.\<close>

definition sample_rank :: "predictor \<Rightarrow> sample \<Rightarrow> nat" where
  "sample_rank predict b =
     (case rank_of (np_squeeze (predict (fst b) (fst (snd b)))) of
        Inl e \<Rightarrow> 0
      | Inr rank \<Rightarrow> rank)"

text \<open>
  The values the two branches of the loop body append, as functions of the rank.
\<close>

definition ndcg_term :: "nat \<Rightarrow> nat \<Rightarrow> real" where
  "ndcg_term k rank = (if rank \<le> k then 1 / ln (real rank + 1) else 0)"

definition hit_term :: "nat \<Rightarrow> nat \<Rightarrow> real" where
  "hit_term k rank = (if rank \<le> k then 1 else 0)"

text \<open>
  The per-sample NDCG term as the specification words it, with the logarithm to base 2:
  \<open>1 / log2 (rank + 1)\<close> when \<open>rank \<le> K\<close>, and 0 otherwise.
\<close>

definition spec_ndcg_term :: "nat \<Rightarrow> nat \<Rightarrow> real" where
  "spec_ndcg_term k rank = (if rank \<le> k then 1 / log 2 (real rank + 1) else 0)"

subsection \<open>The candidate table of the full-ranking evaluation (notebook section 3.4.2)\<close>

text \<open>
  A row of the \<^verbatim>\<open>train\<close> and \<^verbatim>\<open>test\<close> tables, with the header the notebook
  loads them under. The rating column of these tables holds numbers; a missing rating
  arises only from the outer merge below.
\<close>

record interaction =
  userID :: int
  itemID :: int
  rating :: real
  timestamp :: int

text \<open>A row of the frame built from the three lists \<^verbatim>\<open>users, items, preds\<close>.\<close>

record scored_row =
  s_userID :: int
  s_itemID :: int
  s_prediction :: real

text \<open>A row of \<^verbatim>\<open>merged\<close>: the columns of both frames, missing where a side has no row.\<close>

record merged_row =
  m_userID :: int
  m_itemID :: int
  m_rating :: "real option"
  m_timestamp :: "int option"
  m_prediction :: "real option"

text \<open>A row of the final \<^verbatim>\<open>all_predictions\<close>: \<^verbatim>\<open>merged\<close> without the rating column.\<close>

record candidate_row =
  c_userID :: int
  c_itemID :: int
  c_timestamp :: "int option"
  c_prediction :: "real option"

text \<open>\<^verbatim>\<open>Series.unique()\<close>: the distinct values in order of first appearance.\<close>

definition unique :: "'a list \<Rightarrow> 'a list" where
  "unique xs = rev (remdups (rev xs))"

text \<open>
  The loop \<^verbatim>\<open>for user in train.userID.unique()\<close>, with the three lists it extends as
  the state: \<^verbatim>\<open>user = [user] * len(item)\<close>, then the three \<^verbatim>\<open>extend\<close> calls.
\<close>

fun predict_all_loop :: "predictor \<Rightarrow> int list \<Rightarrow> int list
    \<Rightarrow> int list \<times> int list \<times> real list \<Rightarrow> int list \<times> int list \<times> real list" where
  "predict_all_loop predict item [] (users, items, preds) = (users, items, preds)"
| "predict_all_loop predict item (user # rest) (users, items, preds) =
     (let user_col = replicate (length item) user
      in predict_all_loop predict item rest
           (users @ user_col, items @ item, preds @ predict user_col item))"

text \<open>
  \<^verbatim>\<open>pd.DataFrame(data={"userID": users, "itemID": items, "prediction": preds})\<close>:
  columns of different lengths raise ValueError.
\<close>

definition data_frame :: "int list \<Rightarrow> int list \<Rightarrow> real list \<Rightarrow> error + scored_row list" where
  "data_frame users items preds =
     (if length users = length items \<and> length items = length preds
      then Inr (map (\<lambda>(u, i, p). \<lparr>s_userID = u, s_itemID = i, s_prediction = p\<rparr>)
                  (zip users (zip items preds)))
      else Inl ValueError)"

text \<open>
  \<^verbatim>\<open>pd.merge(train, all_predictions, on=["userID", "itemID"], how="outer")\<close>: one row
  for every pair of a left and a right row with the same key, one row for every left row
  without a partner and one for every right row without a partner. pandas orders the
  result by key; here the rows of the left table come first, in their order, and the
  unmatched right rows follow. Nothing below depends on the order of rows.
\<close>

definition merge_outer :: "interaction list \<Rightarrow> scored_row list \<Rightarrow> merged_row list" where
  "merge_outer left right =
     concat (map (\<lambda>l.
        case filter (\<lambda>r. s_userID r = userID l \<and> s_itemID r = itemID l) right of
          [] \<Rightarrow> [\<lparr>m_userID = userID l, m_itemID = itemID l, m_rating = Some (rating l),
                  m_timestamp = Some (timestamp l), m_prediction = None\<rparr>]
        | partners \<Rightarrow>
            map (\<lambda>r. \<lparr>m_userID = userID l, m_itemID = itemID l, m_rating = Some (rating l),
                       m_timestamp = Some (timestamp l), m_prediction = Some (s_prediction r)\<rparr>)
              partners) left)
     @ map (\<lambda>r. \<lparr>m_userID = s_userID r, m_itemID = s_itemID r, m_rating = None,
                   m_timestamp = None, m_prediction = Some (s_prediction r)\<rparr>)
         (filter (\<lambda>r. \<not> (\<exists>l \<in> set left. userID l = s_userID r \<and> itemID l = s_itemID r))
            right)"

text \<open>\<^verbatim>\<open>merged[merged.rating.isnull()].drop('rating', axis=1)\<close>.\<close>

definition drop_rating :: "merged_row \<Rightarrow> candidate_row" where
  "drop_rating m = \<lparr>c_userID = m_userID m, c_itemID = m_itemID m,
                    c_timestamp = m_timestamp m, c_prediction = m_prediction m\<rparr>"

definition rating_isnull :: "merged_row list \<Rightarrow> merged_row list" where
  "rating_isnull merged = filter (\<lambda>m. m_rating m = None) merged"

text \<open>The whole cell that builds \<^verbatim>\<open>all_predictions\<close> from \<^verbatim>\<open>train\<close> and the model.\<close>

definition build_all_predictions :: "predictor \<Rightarrow> interaction list \<Rightarrow> error + candidate_row list" where
  "build_all_predictions predict train =
     (let item = unique (map itemID train) in
      case predict_all_loop predict item (unique (map userID train)) ([], [], []) of
        (users, items, preds) \<Rightarrow>
          (case data_frame users items preds of
             Inl e \<Rightarrow> Inl e
           | Inr all_predictions \<Rightarrow>
               Inr (map drop_rating (rating_isnull (merge_outer train all_predictions)))))"

text \<open>
  The ranking metrics \<^verbatim>\<open>map_at_k\<close>, \<^verbatim>\<open>ndcg_at_k\<close>, \<^verbatim>\<open>precision_at_k\<close> and
  \<^verbatim>\<open>recall_at_k\<close> are imported by the notebook from the evaluation package; they are
  parameters here, each taking the ground-truth table, the prediction table and \<open>k\<close>.
\<close>

type_synonym metric = "interaction list \<Rightarrow> candidate_row list \<Rightarrow> nat \<Rightarrow> real"

record ranking_metrics =
  map_at_k :: metric
  ndcg_at_k :: metric
  precision_at_k :: metric
  recall_at_k :: metric

text \<open>
  The cell that follows: \<^verbatim>\<open>k = 10\<close> and the four calls on \<^verbatim>\<open>test\<close> and
  \<^verbatim>\<open>all_predictions\<close>. The result is \<open>(eval_map, eval_ndcg, eval_precision, eval_recall)\<close>.
\<close>

definition generic_evaluation :: "ranking_metrics \<Rightarrow> predictor \<Rightarrow> interaction list
    \<Rightarrow> interaction list \<Rightarrow> error + (real \<times> real \<times> real \<times> real)" where
  "generic_evaluation metrics predict train test =
     (case build_all_predictions predict train of
        Inl e \<Rightarrow> Inl e
      | Inr all_predictions \<Rightarrow>
          (let k = 10 in
           Inr (map_at_k metrics test all_predictions k,
                ndcg_at_k metrics test all_predictions k,
                precision_at_k metrics test all_predictions k,
                recall_at_k metrics test all_predictions k)))"

text \<open>
  The PositiveSet of a user: the items the user has interacted with in the training
  table.
\<close>

definition positive_set :: "interaction list \<Rightarrow> int \<Rightarrow> int set" where
  "positive_set train u = set (map itemID (filter (\<lambda>r. userID r = u) train))"

text \<open>The items that \<^verbatim>\<open>all_predictions\<close> holds for a user.\<close>

definition candidates :: "candidate_row list \<Rightarrow> int \<Rightarrow> int set" where
  "candidates all_predictions u = c_itemID ` {c \<in> set all_predictions. c_userID c = u}"

text \<open>
  The rows that one pass of the loop adds for a user, and the frame the cell builds when
  the loop has run over every user of the training table.
\<close>

definition block :: "predictor \<Rightarrow> int list \<Rightarrow> int \<Rightarrow> (int \<times> int \<times> real) list" where
  "block predict item u =
     zip (replicate (length item) u) (zip item (predict (replicate (length item) u) item))"

definition frame_of :: "predictor \<Rightarrow> interaction list \<Rightarrow> scored_row list" where
  "frame_of predict train =
     map (\<lambda>(u, i, p). \<lparr>s_userID = u, s_itemID = i, s_prediction = p\<rparr>)
       (concat (map (block predict (unique (map itemID train))) (unique (map userID train))))"

subsection \<open>The model: branches, fusion head and predictor\<close>

text \<open>
  The notebook states the output activation:
  \<open>\<sigma>(x) = 1 / (1 + exp (-x))\<close>, chosen "to restrict the predicted score to be in (0,1)".
\<close>

definition sigmoid :: "real \<Rightarrow> real" where
  "sigmoid x = 1 / (1 + exp (- x))"

text \<open>
  Modelled from the spec: the model class (embedding tables, the two branches, the
  fusion head, the predictor and the checkpoint operations) is imported by the notebook
  from the recommender package and is not among the source files. The activation of the
  deep layers is a configuration option: sigmoid, tanh or rectified-linear.
\<close>

datatype activation = Sigmoid | Tanh | ReLU

text \<open>Modelled from the spec: the three nonlinearities the configuration can choose.\<close>

fun activate :: "activation \<Rightarrow> real \<Rightarrow> real" where
  "activate Sigmoid x = sigmoid x"
| "activate Tanh x = tanh x"
| "activate ReLU x = max 0 x"

text \<open>Modelled from the spec: applying a weight vector to a vector of the same length.\<close>

definition dot :: "real list \<Rightarrow> real list \<Rightarrow> real" where
  "dot xs ys = sum_list (map2 (*) xs ys)"

text \<open>
  Modelled from the spec: a deep-branch layer is a weight matrix (one row per output
  unit) with a bias vector, applied as an affine transform followed by the nonlinearity.
\<close>

type_synonym layer = "real list list \<times> real list"

definition dense :: "activation \<Rightarrow> layer \<Rightarrow> real list \<Rightarrow> real list" where
  "dense a l z = map (activate a) (map2 (+) (map (\<lambda>row. dot row z) (fst l)) (snd l))"

text \<open>
  Modelled from the spec: the embedding tables of the bilinear branch, one vector per
  user index and one per item index.
\<close>

record bilinear_branch =
  gmf_user_embedding :: "real list list"
  gmf_item_embedding :: "real list list"

text \<open>
  Modelled from the spec: the embedding tables of the deep branch, its stack of layers
  and the configured activation.
\<close>

record deep_branch =
  mlp_user_embedding :: "real list list"
  mlp_item_embedding :: "real list list"
  mlp_layers :: "layer list"
  mlp_activation :: activation

text \<open>
  Modelled from the spec: the three architecture variants as a tagged variant, each with
  the output weight vector \<open>h\<close> and the bias of the fusion head.
\<close>

datatype model =
    Bilinear bilinear_branch "real list" real
  | Deep deep_branch "real list" real
  | Fused bilinear_branch deep_branch "real list" real

text \<open>
  Modelled from the spec: the bilinear branch's vector is the elementwise product of the
  user and item embedding vectors.
\<close>

definition gmf_vector :: "bilinear_branch \<Rightarrow> nat \<Rightarrow> nat \<Rightarrow> real list" where
  "gmf_vector g u i = map2 (*) (gmf_user_embedding g ! u) (gmf_item_embedding g ! i)"

text \<open>
  Modelled from the spec: the deep branch concatenates the two embedding vectors and
  passes them through the stacked layers.
\<close>

definition mlp_vector :: "deep_branch \<Rightarrow> nat \<Rightarrow> nat \<Rightarrow> real list" where
  "mlp_vector d u i =
     foldl (\<lambda>z l. dense (mlp_activation d) l z)
       (mlp_user_embedding d ! u @ mlp_item_embedding d ! i) (mlp_layers d)"

text \<open>
  Modelled from the spec: the fusion head applies the output weight vector and the bias
  to the branch vector (for the fused variant, to the concatenation of both), then the
  sigmoid.
\<close>

fun forward :: "model \<Rightarrow> nat \<Rightarrow> nat \<Rightarrow> real" where
  "forward (Bilinear g h b) u i = sigmoid (dot h (gmf_vector g u i) + b)"
| "forward (Deep d h b) u i = sigmoid (dot h (mlp_vector d u i) + b)"
| "forward (Fused g d h b) u i = sigmoid (dot h (gmf_vector g u i @ mlp_vector d u i) + b)"

text \<open>Modelled from the spec: the number of known users and of known items of a model.\<close>

fun known_users :: "model \<Rightarrow> nat" where
  "known_users (Bilinear g h b) = length (gmf_user_embedding g)"
| "known_users (Deep d h b) = length (mlp_user_embedding d)"
| "known_users (Fused g d h b) = min (length (gmf_user_embedding g)) (length (mlp_user_embedding d))"

text \<open>Modelled from the spec: the number of known items, as for the users.\<close>

fun known_items :: "model \<Rightarrow> nat" where
  "known_items (Bilinear g h b) = length (gmf_item_embedding g)"
| "known_items (Deep d h b) = length (mlp_item_embedding d)"
| "known_items (Fused g d h b) = min (length (gmf_item_embedding g)) (length (mlp_item_embedding d))"

text \<open>
  Modelled from the spec: the predictor runs the forward pass for a known user and item
  and returns a fallback, distinguishable from a score, for an unknown one.
\<close>

datatype prediction = Fallback | Score real

text \<open>Modelled from the spec: \<open>predict(user, item)\<close> on dense indices.\<close>

definition model_predict :: "model \<Rightarrow> nat \<Rightarrow> nat \<Rightarrow> prediction" where
  "model_predict m u i =
     (if u < known_users m \<and> i < known_items m then Score (forward m u i) else Fallback)"

subsection \<open>Checkpoints\<close>

text \<open>
  Modelled from the spec: a directory holds all parameters of the model that was saved to
  it (embeddings, branch layers, output vector). The layout is implementation-defined, so
  the store maps a directory name to the saved model.
\<close>

type_synonym store = "string \<rightharpoonup> model"

definition save :: "string \<Rightarrow> model \<Rightarrow> store \<Rightarrow> store" where
  "save dir m st = st(dir \<mapsto> m)"

text \<open>Modelled from the spec: the dimensions that a restored branch must agree on.\<close>

definition bilinear_shape :: "bilinear_branch \<Rightarrow> nat list \<times> nat list" where
  "bilinear_shape g = (map length (gmf_user_embedding g), map length (gmf_item_embedding g))"

text \<open>Modelled from the spec: the dimensions of a deep branch, layer by layer.\<close>

definition deep_shape :: "deep_branch \<Rightarrow> nat list \<times> nat list \<times> (nat list \<times> nat) list" where
  "deep_shape d =
     (map length (mlp_user_embedding d), map length (mlp_item_embedding d),
      map (\<lambda>l. (map length (fst l), length (snd l))) (mlp_layers d))"

text \<open>
  Modelled from the spec: the blend of two pretrained output vectors,
  \<open>h_fused = concat (alpha * h_gmf, (1 - alpha) * h_mlp)\<close>. The notebook gives the same
  formula in its pre-training section.
\<close>

definition blend :: "real \<Rightarrow> real list \<Rightarrow> real list \<Rightarrow> real list" where
  "blend alpha h_gmf h_mlp = map ((*) alpha) h_gmf @ map ((*) (1 - alpha)) h_mlp"

text \<open>
  Modelled from the spec: \<open>load(gmfDir, mlpDir, alpha)\<close>. An \<open>alpha\<close> outside \<open>[0,1]\<close> is
  a configuration error. Loading into a model that is not fused, from a directory that
  does not hold the expected single-branch model, or with dimensions that disagree with
  the fused model's, is a structural mismatch. Otherwise the bilinear branch comes from
  \<open>gmfDir\<close>, the deep branch from \<open>mlpDir\<close>, and the output vector is the blend. The bias of
  the fusion head is not named by the specification and is left as it is; a directory that
  holds nothing, a case the specification does not name either, is reported as
  \<open>CheckpointNotFound\<close>.
\<close>

definition load :: "store \<Rightarrow> string \<Rightarrow> string \<Rightarrow> real \<Rightarrow> model \<Rightarrow> error + model" where
  "load st gmf_dir mlp_dir alpha m =
     (if alpha < 0 \<or> 1 < alpha then Inl ConfigurationError
      else case m of
        Fused g d h b \<Rightarrow>
          (case st gmf_dir of
             None \<Rightarrow> Inl CheckpointNotFound
           | Some (Bilinear g' h_gmf b_gmf) \<Rightarrow>
               (case st mlp_dir of
                  None \<Rightarrow> Inl CheckpointNotFound
                | Some (Deep d' h_mlp b_mlp) \<Rightarrow>
                    if bilinear_shape g' = bilinear_shape g \<and> deep_shape d' = deep_shape d
                    then Inr (Fused g' d' (blend alpha h_gmf h_mlp) b)
                    else Inl StructuralMismatchError
                | Some _ \<Rightarrow> Inl StructuralMismatchError)
           | Some _ \<Rightarrow> Inl StructuralMismatchError)
      | _ \<Rightarrow> Inl StructuralMismatchError)"

text \<open>Modelled from the spec: the single-branch variants.\<close>

fun single_branch :: "model \<Rightarrow> bool" where
  "single_branch (Fused g d h b) = False"
| "single_branch _ = True"

subsection \<open>Negative sampler and batch loader\<close>

text \<open>
  Modelled from the spec: the dataset class (index mapping, PositiveSet, negative sampler
  and the two loaders) is imported by the notebook from the recommender package and is
  not among the source files. The seeded random source is a generator state with a step
  function that returns a raw number and the next state.
\<close>

type_synonym 'g random_source = "'g \<Rightarrow> nat \<times> 'g"

text \<open>
  Modelled from the spec: one draw of the rejection loop. A raw number is reduced to an
  item index; a draw that lands in the user's PositiveSet is rolled again. The loop gives
  up with a sampling-exhaustion error after \<open>tries\<close> draws instead of running forever, and
  an empty catalogue is a configuration error.
\<close>

fun draw_negative :: "nat \<Rightarrow> 'g random_source \<Rightarrow> nat \<Rightarrow> nat set \<Rightarrow> 'g \<Rightarrow> error + (nat \<times> 'g)" where
  "draw_negative 0 gen n_items positives g =
     (if n_items = 0 then Inl ConfigurationError else Inl SamplingExhaustionError)"
| "draw_negative (Suc tries) gen n_items positives g =
     (if n_items = 0 then Inl ConfigurationError
      else case gen g of
        (r, g') \<Rightarrow>
          (let j = r mod n_items
           in if j \<in> positives then draw_negative tries gen n_items positives g'
              else Inr (j, g')))"

text \<open>Modelled from the spec: \<open>n_neg\<close> draws for one positive interaction.\<close>

fun sample_negatives :: "nat \<Rightarrow> 'g random_source \<Rightarrow> nat \<Rightarrow> nat set \<Rightarrow> nat \<Rightarrow> 'g
    \<Rightarrow> error + (nat list \<times> 'g)" where
  "sample_negatives tries gen n_items positives 0 g = Inr ([], g)"
| "sample_negatives tries gen n_items positives (Suc n_neg) g =
     (case draw_negative tries gen n_items positives g of
        Inl e \<Rightarrow> Inl e
      | Inr (j, g') \<Rightarrow>
          (case sample_negatives tries gen n_items positives n_neg g' of
             Inl e \<Rightarrow> Inl e
           | Inr (js, g'') \<Rightarrow> Inr (j # js, g'')))"

text \<open>
  Modelled from the spec: a dataset after construction. Users and items are dense
  indices; the training and held-out positives are (user, item) pairs.
\<close>

record dataset =
  n_items :: nat
  train_positives :: "(nat \<times> nat) list"
  test_positives :: "(nat \<times> nat) list"
  n_neg :: nat
  n_neg_test :: nat
  max_tries :: nat

text \<open>Modelled from the spec: the PositiveSet of a user, from the training split.\<close>

definition positive_items :: "dataset \<Rightarrow> nat \<Rightarrow> nat set" where
  "positive_items ds u = set (map snd (filter (\<lambda>p. fst p = u) (train_positives ds)))"

text \<open>
  Modelled from the spec: the triples for one positive interaction, the positive first,
  \<open>[[u,i,1], [u,j1,0], ..., [u,jk,0]]\<close>.
\<close>

definition sample_for :: "'g random_source \<Rightarrow> dataset \<Rightarrow> nat \<Rightarrow> nat \<times> nat \<Rightarrow> 'g
    \<Rightarrow> error + ((nat \<times> nat \<times> nat) list \<times> 'g)" where
  "sample_for gen ds k p g =
     (case sample_negatives (max_tries ds) gen (n_items ds) (positive_items ds (fst p)) k g of
        Inl e \<Rightarrow> Inl e
      | Inr (js, g') \<Rightarrow> Inr ((fst p, snd p, 1) # map (\<lambda>j. (fst p, j, 0)) js, g'))"

text \<open>Modelled from the spec: the samples for a list of positives, the generator state threaded through.\<close>

fun samples_for :: "'g random_source \<Rightarrow> dataset \<Rightarrow> nat \<Rightarrow> (nat \<times> nat) list \<Rightarrow> 'g
    \<Rightarrow> error + ((nat \<times> nat \<times> nat) list list \<times> 'g)" where
  "samples_for gen ds k [] g = Inr ([], g)"
| "samples_for gen ds k (p # ps) g =
     (case sample_for gen ds k p g of
        Inl e \<Rightarrow> Inl e
      | Inr (s, g') \<Rightarrow>
          (case samples_for gen ds k ps g' of
             Inl e \<Rightarrow> Inl e
           | Inr (ss, g'') \<Rightarrow> Inr (s # ss, g'')))"

text \<open>
  Modelled from the spec: \<open>test_loader()\<close>, one evaluation sample per held-out positive, in
  the order of the held-out positives.
\<close>

definition test_loader :: "'g random_source \<Rightarrow> dataset \<Rightarrow> 'g
    \<Rightarrow> error + ((nat \<times> nat \<times> nat) list list \<times> 'g)" where
  "test_loader gen ds g = samples_for gen ds (n_neg_test ds) (test_positives ds) g"

text \<open>
  Modelled from the spec: the global shuffle, drawing the next element of the result with
  the random source from the elements that remain.
\<close>

fun shuffle_steps :: "nat \<Rightarrow> 'g random_source \<Rightarrow> 'a list \<Rightarrow> 'g \<Rightarrow> 'a list \<times> 'g" where
  "shuffle_steps 0 gen xs g = ([], g)"
| "shuffle_steps (Suc n) gen xs g =
     (if xs = [] then ([], g)
      else case gen g of
        (r, g') \<Rightarrow>
          (let k = r mod length xs
           in case shuffle_steps n gen (take k xs @ drop (Suc k) xs) g' of
                (rest, g'') \<Rightarrow> (xs ! k # rest, g'')))"

text \<open>Modelled from the spec: the shuffle of a whole list.\<close>

definition shuffle :: "'g random_source \<Rightarrow> 'a list \<Rightarrow> 'g \<Rightarrow> 'a list \<times> 'g" where
  "shuffle gen xs g = shuffle_steps (length xs) gen xs g"

text \<open>
  Modelled from the spec: chunks of \<open>batch_size\<close> elements, the last one possibly shorter.
\<close>

fun chunk_steps :: "nat \<Rightarrow> nat \<Rightarrow> 'a list \<Rightarrow> 'a list list" where
  "chunk_steps 0 batch_size xs = []"
| "chunk_steps (Suc n) batch_size xs =
     (if xs = [] then [] else take batch_size xs # chunk_steps n batch_size (drop batch_size xs))"

text \<open>Modelled from the spec: the batches of a whole list.\<close>

definition chunks :: "nat \<Rightarrow> 'a list \<Rightarrow> 'a list list" where
  "chunks batch_size xs = chunk_steps (length xs) batch_size xs"

text \<open>
  Modelled from the spec: \<open>train_loader(batchSize, shuffle)\<close>, one epoch. Every training
  positive with freshly drawn negatives, flattened, shuffled when asked, then chunked. A
  batch size of zero is a configuration error.
\<close>

definition train_loader :: "'g random_source \<Rightarrow> dataset \<Rightarrow> nat \<Rightarrow> bool \<Rightarrow> 'g
    \<Rightarrow> error + ((nat \<times> nat \<times> nat) list list \<times> 'g)" where
  "train_loader gen ds batch_size do_shuffle g =
     (if batch_size = 0 then Inl ConfigurationError
      else case samples_for gen ds (n_neg ds) (train_positives ds) g of
        Inl e \<Rightarrow> Inl e
      | Inr (ss, g') \<Rightarrow>
          (if do_shuffle
           then (case shuffle gen (concat ss) g' of
                   (examples, g'') \<Rightarrow> Inr (chunks batch_size examples, g''))
           else Inr (chunks batch_size (concat ss), g')))"

text \<open>
  Modelled from the spec: a triple is a valid negative for the dataset when its item is an
  item index outside the PositiveSet of its user.
\<close>

definition valid_negative :: "dataset \<Rightarrow> nat \<times> nat \<times> nat \<Rightarrow> bool" where
  "valid_negative ds t =
     (fst (snd t) < n_items ds \<and> fst (snd t) \<notin> positive_items ds (fst t))"

section \<open>Properties of the leave-one-out loop\<close>

lemma rank_of_ok:
  "2 \<le> length scores \<Longrightarrow>
   rank_of (np_squeeze scores) = Inr (length (filter (\<lambda>s. s \<ge> hd scores) scores))"
  by (cases scores; cases "tl scores") (auto simp: np_squeeze_def)

text \<open>
  A sample with no negative makes the loop raise: the squeezed output is
  zero-dimensional and cannot be indexed.
\<close>

lemma loo_single_score_raises:
  "loo_evaluation k (\<lambda>us is. [1/2]) [([1], [2], [1])] = Inl IndexError"
  by (simp add: loo_evaluation_def np_squeeze_def)

text \<open>
  When every sample has at least two scores the loop runs to its end, and the two lists
  grow by one term per sample, in order.
\<close>

lemma loo_loop_terms:
  "\<forall>b \<in> set samples. 2 \<le> length (predict (fst b) (fst (snd b))) \<Longrightarrow>
   loo_loop k predict samples (ndcgs, hits) =
     Inr (ndcgs @ map (\<lambda>b. ndcg_term k (sample_rank predict b)) samples,
          hits @ map (\<lambda>b. hit_term k (sample_rank predict b)) samples)"
proof (induction samples arbitrary: ndcgs hits)
  case Nil
  then show ?case by simp
next
  case (Cons b bs)
  obtain u i l where b: "b = (u, i, l)" by (cases b) auto
  from Cons.prems have len: "2 \<le> length (predict u i)" by (simp add: b)
  have r: "rank_of (np_squeeze (predict u i)) = Inr (sample_rank predict b)"
    using rank_of_ok [OF len] by (simp add: sample_rank_def b)
  from Cons.prems have rest: "\<forall>b \<in> set bs. 2 \<le> length (predict (fst b) (fst (snd b)))"
    by simp
  show ?case
    by (simp add: b r [unfolded b] Cons.IH [OF rest] ndcg_term_def hit_term_def)
qed

text \<open>
  In a list in descending order the scores that reach \<open>p\<close> form a prefix.
\<close>

lemma filter_takeWhile_descending:
  "sorted (rev ys) \<Longrightarrow> filter (\<lambda>s. (p::real) \<le> s) ys = takeWhile (\<lambda>s. p \<le> s) ys"
proof (induction ys)
  case Nil
  then show ?case by simp
next
  case (Cons y ys)
  from Cons.prems have top: "\<forall>s \<in> set ys. s \<le> y" and rest: "sorted (rev ys)"
    by (auto simp: sorted_append)
  show ?case
  proof (cases "p \<le> y")
    case True
    then show ?thesis using Cons.IH [OF rest] by simp
  next
    case False
    with top have "\<forall>s \<in> set ys. \<not> p \<le> s" by fastforce
    then have "filter (\<lambda>s. p \<le> s) ys = []" by (simp add: filter_empty_conv)
    with False show ?thesis by simp
  qed
qed

lemma length_filter_sort:
  "length (filter P (rev (sort xs))) = length (filter P (xs::real list))"
proof -
  have "filter P (rev (sort xs)) = rev (sort (filter P xs))"
    by (simp only: rev_filter [symmetric] filter_sort)
  then show ?thesis by simp
qed

text \<open>
  Claim C1. The specification gives the per-sample NDCG term as \<open>1 / log2 (rank + 1)\<close>,
  which is 1 at rank 1. The loop appends \<open>1 / ln (rank + 1)\<close>: on the specification's own
  scenario (scores 0.9, 0.2, 0.4, the positive first, \<open>k = 10\<close>) the rank is 1 and the
  appended term is \<open>1 / ln 2\<close>, which is greater than 1, where the specification's
  formula gives exactly 1.
\<close>

theorem ndcg_term_uses_natural_log:
  "loo_loop 10 (\<lambda>us is. [9/10, 2/10, 4/10]) [([1, 1, 1], [2, 5, 7], [1, 0, 0])] ([], [])
     = Inr ([1 / ln 2], [1])
   \<and> spec_ndcg_term 10 1 = 1
   \<and> 1 < 1 / ln (2::real)"
  using ln_2_less_1 by (simp add: np_squeeze_def spec_ndcg_term_def ln_gt_zero)

text \<open>
  Claim C2. For a sample whose scores are the positive's score \<open>p\<close> followed by the
  scores of at least one negative, the computed rank is 1 plus the number of other scores
  greater than or equal to \<open>p\<close>. This is the 1-indexed position of the positive in
  descending score order with every tie placed ahead of it: the length of the prefix of
  the descending order made of the scores that reach \<open>p\<close>.
\<close>

theorem loo_rank_counts_ties:
  "rank_of (np_squeeze (p # n # negs)) = Inr (1 + length (filter (\<lambda>s. p \<le> s) (n # negs)))
   \<and> 1 + length (filter (\<lambda>s. p \<le> s) (n # negs))
       = length (takeWhile (\<lambda>s. p \<le> s) (rev (sort (p # n # negs))))"
proof -
  have "sorted (rev (rev (sort (p # n # negs))))"
    by (simp only: rev_rev_ident sorted_sort)
  then have "length (takeWhile (\<lambda>s. p \<le> s) (rev (sort (p # n # negs))))
      = length (filter (\<lambda>s. p \<le> s) (rev (sort (p # n # negs))))"
    by (simp only: filter_takeWhile_descending)
  also have "\<dots> = length (filter (\<lambda>s. p \<le> s) (p # n # negs))"
    by (rule length_filter_sort)
  finally show ?thesis by (simp add: np_squeeze_def)
qed

text \<open>
  Claim C6. Over a non-empty sequence of samples, each with at least two scores, the loop
  returns, the hit-ratio term of a sample is 1 when its rank is at most \<open>k\<close> and 0
  otherwise, and the reported NDCG and HR are the sums of the per-sample terms divided by
  the number of samples.
\<close>

theorem loo_reports_means:
  assumes "samples \<noteq> []"
    and "\<forall>b \<in> set samples. 2 \<le> length (predict (fst b) (fst (snd b)))"
  shows "loo_evaluation k predict samples =
     Inr (Finite ((\<Sum>b\<leftarrow>samples. if sample_rank predict b \<le> k
                     then 1 / ln (real (sample_rank predict b) + 1) else 0)
                  / real (length samples)),
          Finite ((\<Sum>b\<leftarrow>samples. if sample_rank predict b \<le> k then 1 else 0)
                  / real (length samples)))"
  using assms(1) loo_loop_terms [OF assms(2), of k "[]" "[]"]
  by (simp add: loo_evaluation_def np_mean_def ndcg_term_def hit_term_def)

theorem loo_reports_means_witness:
  "loo_evaluation 10 (\<lambda>us is. [9/10, 2/10, 4/10]) [([1, 1, 1], [2, 5, 7], [1, 0, 0])]
     = Inr (Finite (1 / ln 2), Finite 1)"
  using loo_reports_means
    [of "[([1, 1, 1], [2, 5, 7], [1, 0, 0])]" "\<lambda>us is. [9/10, 2/10, 4/10]" 10]
  by (simp add: sample_rank_def np_squeeze_def)

text \<open>
  Claim C10. With no sample the loop body never runs, both lists stay empty, and the cell
  reports NaN for NDCG and for HR: it neither raises nor reports 0.
\<close>

theorem loo_empty_is_nan: "loo_evaluation k predict [] = Inr (NaN, NaN)"
  by (simp add: loo_evaluation_def np_mean_def)

section \<open>Properties of the full-ranking candidate table\<close>

lemma set_unique: "set (unique xs) = set xs"
  by (simp add: unique_def)

lemma distinct_unique: "distinct (unique xs)"
  by (simp add: unique_def)

lemma predict_all_loop_zip:
  assumes "\<forall>us is. length (predict us is) = length is"
  shows "length users = length items \<Longrightarrow> length items = length preds \<Longrightarrow>
    (case predict_all_loop predict item us (users, items, preds) of
       (users', items', preds') \<Rightarrow>
          length users' = length items' \<and> length items' = length preds' \<and>
          zip users' (zip items' preds')
            = zip users (zip items preds) @ concat (map (block predict item) us))"
proof (induction us arbitrary: users items preds)
  case Nil
  then show ?case by simp
next
  case (Cons u us)
  let ?col = "replicate (length item) u"
  have l1: "length (users @ ?col) = length (items @ item)" using Cons.prems by simp
  have l2: "length (items @ item) = length (preds @ predict ?col item)"
    using Cons.prems assms by simp
  have z: "zip (users @ ?col) (zip (items @ item) (preds @ predict ?col item))
      = zip users (zip items preds) @ block predict item u"
    using Cons.prems assms by (simp add: block_def)
  show ?case
    using Cons.IH [OF l1 l2] by (simp add: z Let_def)
qed

lemma zip_replicate_keys:
  "length ps = length item \<Longrightarrow>
   map (\<lambda>(u, i, p). (u, i)) (zip (replicate (length item) u) (zip item ps)) = map (Pair u) item"
proof (induction item arbitrary: ps)
  case Nil
  then show ?case by simp
next
  case (Cons i item)
  then obtain p ps' where "ps = p # ps'" by (cases ps) auto
  with Cons show ?case by simp
qed

lemma block_keys:
  "\<forall>us is. length (predict us is) = length is \<Longrightarrow>
   map (\<lambda>(u, i, p). (u, i)) (block predict item u) = map (Pair u) item"
  by (simp add: block_def zip_replicate_keys)

lemma frame_keys:
  assumes "\<forall>us is. length (predict us is) = length is"
  shows "map (\<lambda>r. (s_userID r, s_itemID r)) (frame_of predict train)
     = concat (map (\<lambda>u. map (Pair u) (unique (map itemID train))) (unique (map userID train)))"
proof -
  have "map (\<lambda>r. (s_userID r, s_itemID r)) (frame_of predict train)
      = concat (map (\<lambda>u. map (\<lambda>(u, i, p). (u, i)) (block predict (unique (map itemID train)) u))
          (unique (map userID train)))"
    by (simp add: frame_of_def map_concat comp_def case_prod_unfold)
  also have "\<dots> = concat (map (\<lambda>u. map (Pair u) (unique (map itemID train))) (unique (map userID train)))"
    using block_keys [OF assms] by simp
  finally show ?thesis .
qed

lemma data_frame_loop:
  assumes "\<forall>us is. length (predict us is) = length is"
  shows "(case predict_all_loop predict (unique (map itemID train)) (unique (map userID train)) ([], [], []) of
           (users, items, preds) \<Rightarrow> data_frame users items preds) = Inr (frame_of predict train)"
  using predict_all_loop_zip [OF assms, of "[]" "[]" "[]" "unique (map itemID train)" "unique (map userID train)"]
  by (auto simp: data_frame_def frame_of_def split: prod.splits)

lemma rating_isnull_merge:
  "rating_isnull (merge_outer left right)
     = map (\<lambda>r. \<lparr>m_userID = s_userID r, m_itemID = s_itemID r, m_rating = None,
                   m_timestamp = None, m_prediction = Some (s_prediction r)\<rparr>)
         (filter (\<lambda>r. \<not> (\<exists>l \<in> set left. userID l = s_userID r \<and> itemID l = s_itemID r)) right)"
proof -
  have "filter (\<lambda>m. m_rating m = None) (concat (map (\<lambda>l.
        case filter (\<lambda>r. s_userID r = userID l \<and> s_itemID r = itemID l) right of
          [] \<Rightarrow> [\<lparr>m_userID = userID l, m_itemID = itemID l, m_rating = Some (rating l),
                  m_timestamp = Some (timestamp l), m_prediction = None\<rparr>]
        | partners \<Rightarrow>
            map (\<lambda>r. \<lparr>m_userID = userID l, m_itemID = itemID l, m_rating = Some (rating l),
                       m_timestamp = Some (timestamp l), m_prediction = Some (s_prediction r)\<rparr>)
              partners) left)) = []"
    by (auto simp: filter_empty_conv split: list.splits)
  then show ?thesis
    by (simp add: rating_isnull_def merge_outer_def filter_map comp_def)
qed

lemma build_all_predictions_eq:
  assumes "\<forall>us is. length (predict us is) = length is"
  shows "build_all_predictions predict train =
     Inr (map (\<lambda>r. \<lparr>c_userID = s_userID r, c_itemID = s_itemID r, c_timestamp = None,
                     c_prediction = Some (s_prediction r)\<rparr>)
           (filter (\<lambda>r. \<not> (\<exists>l \<in> set train. userID l = s_userID r \<and> itemID l = s_itemID r))
              (frame_of predict train)))"
proof -
  obtain users items preds where
    loop: "predict_all_loop predict (unique (map itemID train)) (unique (map userID train)) ([], [], [])
             = (users, items, preds)"
    by (metis prod_cases3)
  with data_frame_loop [OF assms, of train]
  have "data_frame users items preds = Inr (frame_of predict train)" by simp
  with loop show ?thesis
    by (simp add: build_all_predictions_def rating_isnull_merge drop_rating_def comp_def)
qed

lemma distinct_pairs:
  "distinct us \<Longrightarrow> distinct item \<Longrightarrow> distinct (concat (map (\<lambda>u. map (Pair u) item) us))"
  by (induction us) (auto simp: distinct_map inj_on_def)

lemma frame_rows:
  assumes len: "\<forall>us is. length (predict us is) = length is"
    and r: "r \<in> set (frame_of predict train)"
  shows "\<exists>j < length (unique (map itemID train)).
           s_userID r \<in> set (unique (map userID train))
         \<and> s_itemID r = unique (map itemID train) ! j
         \<and> s_prediction r
             = predict (replicate (length (unique (map itemID train))) (s_userID r))
                 (unique (map itemID train)) ! j"
proof -
  let ?item = "unique (map itemID train)"
  from r obtain x t where x: "x \<in> set (unique (map userID train))"
    and t: "t \<in> set (block predict ?item x)"
    and rt: "r = (case t of (u, i, p) \<Rightarrow> \<lparr>s_userID = u, s_itemID = i, s_prediction = p\<rparr>)"
    by (auto simp: frame_of_def)
  obtain u i p where tu: "t = (u, i, p)" by (cases t) auto
  from t tu have mem0: "(u, i, p) \<in> set (block predict ?item x)" by simp
  from rt tu have row: "r = \<lparr>s_userID = u, s_itemID = i, s_prediction = p\<rparr>" by simp
  from mem0 have "u = x" by (auto simp: block_def dest: set_zip_leftD)
  with x mem0 have u: "u \<in> set (unique (map userID train))"
    and mem: "(u, i, p) \<in> set (block predict ?item u)" by simp_all
  from mem obtain j where j: "j < length ?item" "i = ?item ! j"
      "p = predict (replicate (length ?item) u) ?item ! j"
    using len by (auto simp: block_def set_zip)
  with u row show ?thesis by auto
qed

text \<open>
  An item that occurs only in the test table is never a candidate, although it is outside
  the user's PositiveSet: the cell scores the items of \<^verbatim>\<open>train.itemID.unique()\<close> only.
  Here user 1 has item 10 in the training table and item 30 held out.
\<close>

theorem full_ranking_skips_test_only_item:
  "build_all_predictions (\<lambda>us is. map (\<lambda>i. 1/2) is)
      [\<lparr>userID = 1, itemID = 10, rating = 3, timestamp = 0\<rparr>,
       \<lparr>userID = 2, itemID = 20, rating = 4, timestamp = 1\<rparr>]
     = Inr [\<lparr>c_userID = 1, c_itemID = 20, c_timestamp = None, c_prediction = Some (1/2)\<rparr>,
            \<lparr>c_userID = 2, c_itemID = 10, c_timestamp = None, c_prediction = Some (1/2)\<rparr>]
   \<and> 30 \<in> set (map itemID [\<lparr>userID = 1, itemID = 30, rating = 5, timestamp = 2\<rparr>])
   \<and> 30 \<notin> positive_set
        [\<lparr>userID = 1, itemID = 10, rating = 3, timestamp = 0\<rparr>,
         \<lparr>userID = 2, itemID = 20, rating = 4, timestamp = 1\<rparr>] 1
   \<and> 30 \<notin> candidates
        [\<lparr>c_userID = 1, c_itemID = 20, c_timestamp = None, c_prediction = Some (1/2)\<rparr>,
         \<lparr>c_userID = 2, c_itemID = 10, c_timestamp = None, c_prediction = Some (1/2)\<rparr>] 1"
  by (auto simp: build_all_predictions_def unique_def data_frame_def merge_outer_def
      rating_isnull_def drop_rating_def positive_set_def candidates_def Let_def)

text \<open>
  Claim C3, as amended. When the model returns one score per requested pair, the cell
  builds a prediction table in which the items held for a user of the training table are
  exactly the items of the training table outside that user's PositiveSet, and a user
  outside the training table has none. Every such pair occurs once and carries the score
  the model gave it, and the four ranking metrics are called on the test table, this
  prediction table and \<open>k = 10\<close>.
\<close>

theorem full_ranking_candidates:
  assumes "\<forall>us is. length (predict us is) = length is"
  shows "\<exists>all_predictions.
      build_all_predictions predict train = Inr all_predictions
    \<and> (\<forall>u. candidates all_predictions u
            = (if u \<in> userID ` set train then itemID ` set train - positive_set train u else {}))
    \<and> distinct (map (\<lambda>c. (c_userID c, c_itemID c)) all_predictions)
    \<and> (\<forall>c \<in> set all_predictions. \<exists>j < length (unique (map itemID train)).
          c_itemID c = unique (map itemID train) ! j
        \<and> c_prediction c
            = Some (predict (replicate (length (unique (map itemID train))) (c_userID c))
                      (unique (map itemID train)) ! j))
    \<and> generic_evaluation metrics predict train test
        = Inr (map_at_k metrics test all_predictions 10,
               ndcg_at_k metrics test all_predictions 10,
               precision_at_k metrics test all_predictions 10,
               recall_at_k metrics test all_predictions 10)"
proof -
  let ?unseen = "\<lambda>r. \<not> (\<exists>l \<in> set train. userID l = s_userID r \<and> itemID l = s_itemID r)"
  let ?conv = "\<lambda>r. \<lparr>c_userID = s_userID r, c_itemID = s_itemID r, c_timestamp = None,
                     c_prediction = Some (s_prediction r)\<rparr>"
  let ?ap = "map ?conv (filter ?unseen (frame_of predict train))"
  let ?keys = "map (\<lambda>r. (s_userID r, s_itemID r)) (frame_of predict train)"
  have build: "build_all_predictions predict train = Inr ?ap"
    by (rule build_all_predictions_eq [OF assms])
  have keys: "?keys = concat (map (\<lambda>u. map (Pair u) (unique (map itemID train)))
                               (unique (map userID train)))"
    by (rule frame_keys [OF assms])
  have key_set: "set ?keys = (userID ` set train) \<times> (itemID ` set train)"
    by (auto simp: keys set_unique)
  have mem: "(\<exists>r \<in> set (frame_of predict train). s_userID r = u \<and> s_itemID r = i)
      \<longleftrightarrow> u \<in> userID ` set train \<and> i \<in> itemID ` set train" for u i
  proof -
    have "(\<exists>r \<in> set (frame_of predict train). s_userID r = u \<and> s_itemID r = i)
        \<longleftrightarrow> (u, i) \<in> set ?keys" by force
    then show ?thesis by (simp only: key_set mem_Sigma_iff)
  qed
  have cand: "candidates ?ap u
      = (if u \<in> userID ` set train then itemID ` set train - positive_set train u else {})" for u
  proof -
    have "{c \<in> set ?ap. c_userID c = u}
        = ?conv ` {r \<in> set (frame_of predict train). ?unseen r \<and> s_userID r = u}"
      by auto
    then have "candidates ?ap u
        = s_itemID ` {r \<in> set (frame_of predict train). ?unseen r \<and> s_userID r = u}"
      by (simp add: candidates_def image_image)
    also have "\<dots> = {i. (\<exists>r \<in> set (frame_of predict train). s_userID r = u \<and> s_itemID r = i)
              \<and> \<not> (\<exists>l \<in> set train. userID l = u \<and> itemID l = i)}"
      by (auto simp: image_iff)
    also have "\<dots> = {i. u \<in> userID ` set train \<and> i \<in> itemID ` set train
                         \<and> i \<notin> positive_set train u}"
      by (simp only: mem) (auto simp: positive_set_def image_iff)
    finally show ?thesis by auto
  qed
  have "distinct ?keys"
    by (simp only: keys distinct_pairs distinct_unique)
  then have "distinct (map (\<lambda>r. (s_userID r, s_itemID r)) (filter ?unseen (frame_of predict train)))"
    by (rule distinct_map_filter)
  then have dist: "distinct (map (\<lambda>c. (c_userID c, c_itemID c)) ?ap)"
    by (simp add: comp_def)
  have scored: "\<forall>c \<in> set ?ap. \<exists>j < length (unique (map itemID train)).
          c_itemID c = unique (map itemID train) ! j
        \<and> c_prediction c
            = Some (predict (replicate (length (unique (map itemID train))) (c_userID c))
                      (unique (map itemID train)) ! j)"
    using frame_rows [OF assms] by fastforce
  have ev: "generic_evaluation metrics predict train test
        = Inr (map_at_k metrics test ?ap 10, ndcg_at_k metrics test ?ap 10,
               precision_at_k metrics test ?ap 10, recall_at_k metrics test ?ap 10)"
    by (simp add: generic_evaluation_def build)
  from build cand dist scored ev show ?thesis by blast
qed

theorem full_ranking_candidates_witness:
  "\<exists>all_predictions.
      build_all_predictions (\<lambda>us is. map (\<lambda>i. 1/2) is)
        [\<lparr>userID = 1, itemID = 10, rating = 3, timestamp = 0\<rparr>,
         \<lparr>userID = 2, itemID = 20, rating = 4, timestamp = 1\<rparr>] = Inr all_predictions
    \<and> candidates all_predictions 1 = {20}
    \<and> candidates all_predictions 2 = {10}
    \<and> candidates all_predictions 3 = {}"
proof -
  let ?train = "[\<lparr>userID = 1, itemID = 10, rating = 3, timestamp = 0\<rparr>,
                 \<lparr>userID = 2, itemID = 20, rating = 4, timestamp = 1\<rparr>]"
  have len: "\<forall>us is. length ((\<lambda>us is. map (\<lambda>i. 1/2) is) us is) = length (is :: int list)"
    by simp
  have p1: "itemID ` set ?train - positive_set ?train 1 = {20}"
    by (auto simp: positive_set_def)
  have p2: "itemID ` set ?train - positive_set ?train 2 = {10}"
    by (auto simp: positive_set_def)
  from full_ranking_candidates [OF len, of ?train "\<lparr>map_at_k = \<lambda>t a k. 0, ndcg_at_k = \<lambda>t a k. 0,
      precision_at_k = \<lambda>t a k. 0, recall_at_k = \<lambda>t a k. 0\<rparr>" "[]"]
  obtain ap where b: "build_all_predictions (\<lambda>us is. map (\<lambda>i. 1/2) is) ?train = Inr ap"
    and c: "\<forall>u. candidates ap u
            = (if u \<in> userID ` set ?train then itemID ` set ?train - positive_set ?train u else {})"
    by blast
  from c have "candidates ap 1 = {20}" "candidates ap 2 = {10}" "candidates ap 3 = {}"
    using p1 p2 by simp_all
  with b show ?thesis by blast
qed

section \<open>Properties of the model and of checkpoints\<close>

lemma sigmoid_bounds: "0 < sigmoid x \<and> sigmoid x < 1"
proof -
  have "0 < exp (- x)" by simp
  then show ?thesis by (simp add: sigmoid_def add_pos_pos)
qed

text \<open>
  Claim C8. For each of the three variants and every known user index and item index the
  predictor returns a score, and the score lies strictly between 0 and 1. Parameters are
  real numbers, so every parameter is finite.
\<close>

theorem forward_in_unit_interval:
  assumes "u < known_users m" and "i < known_items m"
  shows "\<exists>s. model_predict m u i = Score s \<and> 0 < s \<and> s < 1"
proof -
  have "0 < forward m u i \<and> forward m u i < 1"
    by (cases m) (simp_all add: sigmoid_bounds)
  with assms show ?thesis by (simp add: model_predict_def)
qed

theorem forward_in_unit_interval_witness:
  "\<exists>s. model_predict
          (Fused \<lparr>gmf_user_embedding = [[1, 2]], gmf_item_embedding = [[3, - 1]]\<rparr>
                 \<lparr>mlp_user_embedding = [[1]], mlp_item_embedding = [[2]],
                  mlp_layers = [([[1, - 1]], [0])], mlp_activation = ReLU\<rparr>
                 [1, 1, 1] 0) 0 0 = Score s \<and> 0 < s \<and> s < 1"
  using forward_in_unit_interval
    [of 0 "Fused \<lparr>gmf_user_embedding = [[1, 2]], gmf_item_embedding = [[3, - 1]]\<rparr>
                 \<lparr>mlp_user_embedding = [[1]], mlp_item_embedding = [[2]],
                  mlp_layers = [([[1, - 1]], [0])], mlp_activation = ReLU\<rparr>
                 [1, 1, 1] 0" 0]
  by simp




text \<open>
  Claim C4. For \<open>alpha\<close> in \<open>[0,1]\<close>, loading into a fused model from a directory that
  holds a bilinear-only model and one that holds a deep-only model of the fused model's
  dimensions succeeds: the bilinear branch is the one saved in \<open>gmfDir\<close>, the deep branch
  the one saved in \<open>mlpDir\<close>, and the output vector is \<open>alpha * h_gmf\<close> followed by
  \<open>(1 - alpha) * h_mlp\<close>. With \<open>alpha = 1\<close> that is \<open>h_gmf\<close> followed by zeros, and with
  \<open>alpha = 0\<close> zeros followed by \<open>h_mlp\<close>.
\<close>

theorem load_blends_output_vectors:
  assumes "0 \<le> alpha" and "alpha \<le> 1"
    and "st gmf_dir = Some (Bilinear g' h_gmf b_gmf)"
    and "st mlp_dir = Some (Deep d' h_mlp b_mlp)"
    and "bilinear_shape g' = bilinear_shape g"
    and "deep_shape d' = deep_shape d"
  shows "load st gmf_dir mlp_dir alpha (Fused g d h b)
           = Inr (Fused g' d' (map ((*) alpha) h_gmf @ map ((*) (1 - alpha)) h_mlp) b)
       \<and> load st gmf_dir mlp_dir 1 (Fused g d h b)
           = Inr (Fused g' d' (h_gmf @ replicate (length h_mlp) 0) b)
       \<and> load st gmf_dir mlp_dir 0 (Fused g d h b)
           = Inr (Fused g' d' (replicate (length h_gmf) 0 @ h_mlp) b)"
proof -
  have z: "map ((*) 0) xs = replicate (length xs) (0::real)" for xs
    by (induction xs) simp_all
  have o: "map ((*) 1) xs = (xs::real list)" for xs
    by (induction xs) simp_all
  from assms show ?thesis
    by (simp add: load_def blend_def z o)
qed

theorem load_blends_output_vectors_witness:
  "load (save ''gmf'' (Bilinear \<lparr>gmf_user_embedding = [[1, 2]], gmf_item_embedding = [[3, 4]]\<rparr> [2, 4] 0)
          (save ''mlp'' (Deep \<lparr>mlp_user_embedding = [[1]], mlp_item_embedding = [[2]],
                               mlp_layers = [([[1, 1]], [0])], mlp_activation = ReLU\<rparr> [6] 0)
             Map.empty))
        ''gmf'' ''mlp'' (1/2)
        (Fused \<lparr>gmf_user_embedding = [[0, 0]], gmf_item_embedding = [[0, 0]]\<rparr>
               \<lparr>mlp_user_embedding = [[0]], mlp_item_embedding = [[0]],
                mlp_layers = [([[0, 0]], [0])], mlp_activation = ReLU\<rparr> [0, 0, 0] 0)
     = Inr (Fused \<lparr>gmf_user_embedding = [[1, 2]], gmf_item_embedding = [[3, 4]]\<rparr>
                  \<lparr>mlp_user_embedding = [[1]], mlp_item_embedding = [[2]],
                   mlp_layers = [([[1, 1]], [0])], mlp_activation = ReLU\<rparr> [1, 2, 3] 0)"
  using load_blends_output_vectors
    [of "1/2"
        "save ''gmf'' (Bilinear \<lparr>gmf_user_embedding = [[1, 2]], gmf_item_embedding = [[3, 4]]\<rparr> [2, 4] 0)
          (save ''mlp'' (Deep \<lparr>mlp_user_embedding = [[1]], mlp_item_embedding = [[2]],
                               mlp_layers = [([[1, 1]], [0])], mlp_activation = ReLU\<rparr> [6] 0)
             Map.empty)"
        "''gmf''" "\<lparr>gmf_user_embedding = [[1, 2]], gmf_item_embedding = [[3, 4]]\<rparr>" "[2, 4]" 0
        "''mlp''" "\<lparr>mlp_user_embedding = [[1]], mlp_item_embedding = [[2]],
                               mlp_layers = [([[1, 1]], [0])], mlp_activation = ReLU\<rparr>" "[6]" 0
        "\<lparr>gmf_user_embedding = [[0, 0]], gmf_item_embedding = [[0, 0]]\<rparr>"
        "\<lparr>mlp_user_embedding = [[0]], mlp_item_embedding = [[0]],
                mlp_layers = [([[0, 0]], [0])], mlp_activation = ReLU\<rparr>" "[0, 0, 0]" 0]
  by (simp add: save_def bilinear_shape_def deep_shape_def)

text \<open>
  The only load of the specification refuses a single-branch model, whatever the
  directories hold.
\<close>

lemma load_into_single_branch_fails:
  "single_branch m \<Longrightarrow> load st gmf_dir mlp_dir alpha m \<noteq> Inr m'"
  by (cases m) (simp_all add: load_def)






section \<open>Properties of the negative sampler and the loaders\<close>

lemma draw_negative_ok:
  "draw_negative tries gen n positives g = Inr (j, g') \<Longrightarrow> j < n \<and> j \<notin> positives"
  by (induction tries arbitrary: g) (auto split: if_splits prod.splits simp: Let_def)

lemma sample_negatives_ok:
  "sample_negatives tries gen n positives k g = Inr (js, g') \<Longrightarrow>
   length js = k \<and> (\<forall>j \<in> set js. j < n \<and> j \<notin> positives)"
proof (induction k arbitrary: g js)
  case 0
  then show ?case by simp
next
  case (Suc k)
  from Suc.prems obtain j g1 js1 where
    d: "draw_negative tries gen n positives g = Inr (j, g1)"
    and r: "sample_negatives tries gen n positives k g1 = Inr (js1, g')"
    and js: "js = j # js1"
    by (auto split: sum.splits prod.splits)
  from draw_negative_ok [OF d] Suc.IH [OF r] js show ?case by simp
qed

lemma sample_for_ok:
  assumes "sample_for gen ds k p g = Inr (s, g')"
  shows "length s = Suc k \<and> hd s = (fst p, snd p, 1) \<and> (\<forall>t \<in> set (tl s). valid_negative ds t \<and> fst t = fst p \<and> snd (snd t) = 0)"
proof -
  from assms obtain js where
    n: "sample_negatives (max_tries ds) gen (n_items ds) (positive_items ds (fst p)) k g = Inr (js, g')"
    and s: "s = (fst p, snd p, 1) # map (\<lambda>j. (fst p, j, 0)) js"
    by (auto simp: sample_for_def split: sum.splits prod.splits)
  from sample_negatives_ok [OF n] s show ?thesis
    by (auto simp: valid_negative_def)
qed

lemma samples_for_ok:
  "samples_for gen ds k ps g = Inr (ss, g') \<Longrightarrow>
   length ss = length ps \<and>
   (\<forall>s \<in> set ss. length s = Suc k \<and> (\<forall>t \<in> set (tl s). valid_negative ds t))"
proof (induction ps arbitrary: g ss)
  case Nil
  then show ?case by simp
next
  case (Cons p ps)
  from Cons.prems obtain s g1 ss1 where
    a: "sample_for gen ds k p g = Inr (s, g1)"
    and b: "samples_for gen ds k ps g1 = Inr (ss1, g')"
    and c: "ss = s # ss1"
    by (auto split: sum.splits prod.splits)
  from sample_for_ok [OF a] Cons.IH [OF b] c show ?case by simp
qed

lemma samples_for_labels:
  "samples_for gen ds k ps g = Inr (ss, g') \<Longrightarrow>
   \<forall>t \<in> set (concat ss). snd (snd t) = 0 \<longrightarrow> valid_negative ds t"
proof (induction ps arbitrary: g ss)
  case Nil
  then show ?case by simp
next
  case (Cons p ps)
  from Cons.prems obtain s g1 ss1 where
    a: "sample_for gen ds k p g = Inr (s, g1)"
    and b: "samples_for gen ds k ps g1 = Inr (ss1, g')"
    and c: "ss = s # ss1"
    by (auto split: sum.splits prod.splits)
  from sample_for_ok [OF a] have "s \<noteq> []" by auto
  then have "set s = insert (hd s) (set (tl s))" by (cases s) auto
  with sample_for_ok [OF a] have "\<forall>t \<in> set s. snd (snd t) = 0 \<longrightarrow> valid_negative ds t"
    by auto
  with Cons.IH [OF b] c show ?case by auto
qed

lemma set_shuffle_steps:
  "length xs \<le> n \<Longrightarrow> set (fst (shuffle_steps n gen xs g)) = set xs"
proof (induction n arbitrary: xs g)
  case 0
  then show ?case by simp
next
  case (Suc n)
  show ?case
  proof (cases "xs = []")
    case True
    then show ?thesis by simp
  next
    case False
    obtain r g1 where gen: "gen g = (r, g1)" by (cases "gen g") auto
    let ?k = "r mod length xs"
    let ?rest = "take ?k xs @ drop (Suc ?k) xs"
    from False have k: "?k < length xs" by simp
    with Suc.prems have "length ?rest \<le> n" by simp
    from Suc.IH [OF this] have ih: "set (fst (shuffle_steps n gen ?rest g1)) = set ?rest" .
    obtain rest g2 where sh: "shuffle_steps n gen ?rest g1 = (rest, g2)"
      by (cases "shuffle_steps n gen ?rest g1") auto
    with ih have rest: "set rest = set ?rest" by simp
    have "set xs = insert (xs ! ?k) (set ?rest)"
      using id_take_nth_drop [OF k] by (metis list.simps(15) set_append Un_insert_right)
    with rest False gen sh show ?thesis
      by (simp add: Let_def)
  qed
qed

lemma concat_chunk_steps:
  "0 < b \<Longrightarrow> length xs \<le> n \<Longrightarrow> concat (chunk_steps n b xs) = xs"
proof (induction n arbitrary: xs)
  case 0
  then show ?case by simp
next
  case (Suc n)
  show ?case
  proof (cases "xs = []")
    case True
    then show ?thesis by simp
  next
    case False
    with Suc.prems have "length (drop b xs) \<le> n" by (cases xs) auto
    from Suc.IH [OF Suc.prems(1) this] False show ?thesis by simp
  qed
qed

lemma set_chunks: "0 < b \<Longrightarrow> \<Union> (set ` set (chunks b xs)) = set xs"
  using concat_chunk_steps [of b xs "length xs"]
  by (metis chunks_def order_refl set_concat)

text \<open>
  Claim C5. Every item index that the sampler returns for a user is a valid item index
  outside that user's PositiveSet, and it returns as many as were asked for. The same
  holds for every label-0 triple of every training batch, shuffled or not, and for every
  triple after the first of every leave-one-out sample.
\<close>

theorem sampled_negatives_excluded:
  "(sample_negatives (max_tries ds) gen (n_items ds) (positive_items ds u) k g = Inr (js, g1)
      \<longrightarrow> length js = k \<and> (\<forall>j \<in> set js. j < n_items ds \<and> j \<notin> positive_items ds u))
   \<and> (train_loader gen ds batch_size do_shuffle g = Inr (batches, g2)
      \<longrightarrow> (\<forall>batch \<in> set batches. \<forall>t \<in> set batch. snd (snd t) = 0 \<longrightarrow> valid_negative ds t))
   \<and> (test_loader gen ds g = Inr (samples, g3)
      \<longrightarrow> (\<forall>s \<in> set samples. length s = Suc (n_neg_test ds)
            \<and> (\<forall>t \<in> set (tl s). valid_negative ds t)))"
proof (intro conjI impI)
  assume "sample_negatives (max_tries ds) gen (n_items ds) (positive_items ds u) k g = Inr (js, g1)"
  from sample_negatives_ok [OF this]
  show "length js = k" and "\<forall>j \<in> set js. j < n_items ds \<and> j \<notin> positive_items ds u"
    by simp_all
next
  assume tl: "train_loader gen ds batch_size do_shuffle g = Inr (batches, g2)"
  then have b: "0 < batch_size" by (auto simp: train_loader_def split: if_splits)
  from tl obtain ss g' where
    ss: "samples_for gen ds (n_neg ds) (train_positives ds) g = Inr (ss, g')"
    by (auto simp: train_loader_def split: if_splits sum.splits)
  have "\<Union> (set ` set batches) = set (concat ss)"
  proof (cases do_shuffle)
    case True
    obtain examples g'' where sh: "shuffle gen (concat ss) g' = (examples, g'')"
      by (cases "shuffle gen (concat ss) g'") auto
    with tl ss b True have "batches = chunks batch_size examples"
      by (simp add: train_loader_def)
    moreover from sh have "set examples = set (concat ss)"
      using set_shuffle_steps [of "concat ss" "length (concat ss)" gen g']
      by (simp add: shuffle_def)
    ultimately show ?thesis using set_chunks [OF b, of examples] by simp
  next
    case False
    with tl ss b have "batches = chunks batch_size (concat ss)"
      by (simp add: train_loader_def)
    then show ?thesis using set_chunks [OF b, of "concat ss"] by simp
  qed
  with samples_for_labels [OF ss]
  show "\<forall>batch \<in> set batches. \<forall>t \<in> set batch. snd (snd t) = 0 \<longrightarrow> valid_negative ds t"
    by blast
next
  assume "test_loader gen ds g = Inr (samples, g3)"
  then have "samples_for gen ds (n_neg_test ds) (test_positives ds) g = Inr (samples, g3)"
    by (simp add: test_loader_def)
  from samples_for_ok [OF this]
  show "\<forall>s \<in> set samples. length s = Suc (n_neg_test ds) \<and> (\<forall>t \<in> set (tl s). valid_negative ds t)"
    by simp
qed

theorem sampled_negatives_excluded_witness:
  "sample_negatives 10 (\<lambda>g. (g, Suc g)) 4 {0, 1} 2 0 = Inr ([2, 3], 4)
   \<and> train_loader (\<lambda>g. (g, Suc g))
        \<lparr>n_items = 4, train_positives = [(0, 0), (0, 1), (1, 2)], test_positives = [(0, 3)],
         n_neg = 1, n_neg_test = 2, max_tries = 10\<rparr> 4 False 0
       = Inr ([[(0, 0, 1), (0, 2, 0), (0, 1, 1), (0, 3, 0)], [(1, 2, 1), (1, 0, 0)]], 5)
   \<and> test_loader (\<lambda>g. (g, Suc g))
        \<lparr>n_items = 4, train_positives = [(0, 0), (0, 1), (1, 2)], test_positives = [(0, 3)],
         n_neg = 1, n_neg_test = 2, max_tries = 10\<rparr> 0
       = Inr ([[(0, 3, 1), (0, 2, 0), (0, 3, 0)]], 4)
   \<and> valid_negative
        \<lparr>n_items = 4, train_positives = [(0, 0), (0, 1), (1, 2)], test_positives = [(0, 3)],
         n_neg = 1, n_neg_test = 2, max_tries = 10\<rparr> (0, 2, 0)
   \<and> valid_negative
        \<lparr>n_items = 4, train_positives = [(0, 0), (0, 1), (1, 2)], test_positives = [(0, 3)],
         n_neg = 1, n_neg_test = 2, max_tries = 10\<rparr> (1, 0, 0)"
proof -
  let ?ds = "\<lparr>n_items = 4, train_positives = [(0, 0), (0, 1), (1, 2)], test_positives = [(0, 3)],
         n_neg = 1, n_neg_test = 2, max_tries = 10\<rparr>"
  let ?gen = "\<lambda>g::nat. (g, Suc g)"
  have pos: "positive_items ?ds 0 = {0, 1}"
    by (auto simp: positive_items_def)
  have a: "sample_negatives 10 ?gen 4 {0, 1} 2 0 = Inr ([2, 3], 4)"
    by code_simp
  have b: "train_loader ?gen ?ds 4 False 0
       = Inr ([[(0, 0, 1), (0, 2, 0), (0, 1, 1), (0, 3, 0)], [(1, 2, 1), (1, 0, 0)]], 5)"
    by code_simp
  have c: "test_loader ?gen ?ds 0 = Inr ([[(0, 3, 1), (0, 2, 0), (0, 3, 0)]], 4)"
    by code_simp
  from sampled_negatives_excluded
    [of ?ds ?gen 0 2 0 "[2, 3]" 4 4 False
        "[[(0, 0, 1), (0, 2, 0), (0, 1, 1), (0, 3, 0)], [(1, 2, 1), (1, 0, 0)]]" 5
        "[[(0, 3, 1), (0, 2, 0), (0, 3, 0)]]" 4]
  have "valid_negative ?ds (0, 2, 0)" and "valid_negative ?ds (1, 0, 0)"
    using a b c pos by simp_all
  with a b c show ?thesis by simp
qed

end
